theory Spec2Isabelle
  imports Complex_Main "HOL-Library.AList" "HOL-Library.Char_ord" "HOL-Library.List_Lexorder"
begin

section \<open>Numbers and strings\<close>

text \<open>
  Python floats are modelled as real numbers and Python integers as \<open>int\<close> (lengths and
  counts as \<open>nat\<close>). No theorem below speaks about rounding error of binary floating
  point: every statement is about the exact arithmetic the formulas of the source denote.

  \<open>round(x, n)\<close> rounds to \<open>n\<close> decimals, a tie going to the even neighbour.
\<close>

definition round_half_even :: "real \<Rightarrow> int" where
  "round_half_even x =
     (let f = \<lfloor>x\<rfloor>; d = x - of_int f
      in if d < 1 / 2 then f else if 1 / 2 < d then f + 1 else if even f then f else f + 1)"

definition py_round :: "real \<Rightarrow> nat \<Rightarrow> real" where
  "py_round x ndigits = of_int (round_half_even (x * 10 ^ ndigits)) / 10 ^ ndigits"

text \<open>
  \<open>str.upper()\<close> on ASCII text: the 26 lower-case letters go to their capitals and every
  other character stays. (On text outside ASCII Python's \<open>upper\<close> does more; the model
  is about ASCII strings, and \<open>ascii_str\<close> says that a string is one.)
\<close>

definition upper_char :: "char \<Rightarrow> char" where
  "upper_char c =
     (case map_of (zip ''abcdefghijklmnopqrstuvwxyz'' ''ABCDEFGHIJKLMNOPQRSTUVWXYZ'') c of
        Some d \<Rightarrow> d
      | None \<Rightarrow> c)"

definition py_upper :: "string \<Rightarrow> string" where
  "py_upper s = map upper_char s"


section \<open>clustering.py: the data\<close>

datatype ClusteringStrategy = KMEANS | HIERARCHICAL | DBSCAN | GRAPH_COMMUNITY

record ClusterAssignment =
  ca_employee_id :: string
  strategy :: ClusteringStrategy
  cluster_id :: int
  confidence :: real
  is_outlier :: bool

text \<open>
  \<open>disagreement_reason\<close> is a formatted message in the source; the model keeps which
  message it is and the values formatted into it.
\<close>

datatype disagreement =
    NoClusteringResults
  | LowConsensusScore real real
  | OutlierDisagreement nat nat
  | NoCommonPeers

record ConsensusResult =
  cr_employee_id :: string
  assignments :: "(ClusteringStrategy \<times> ClusterAssignment) list"
  consensus_cluster_id :: "int option"
  consensus_score :: real
  strategies_agreeing :: nat
  total_strategies :: nat
  peer_ids :: "string list"
  peer_count :: nat
  needs_human_review :: bool
  disagreement_reason :: "disagreement option"

section \<open>Arrays, the clock and the libraries\<close>

text \<open>
  A numpy array of shape (n, n) is a function of two indices, read inside the shape only;
  an array of n labels is a function of one index.

  The source calls scikit-learn, networkx and \<open>datetime\<close>, which are not part of it. The
  model takes what they return as parameters, collected in one record. A call that raises
  returns \<open>None\<close>.
  \<^item> \<open>fromisoformat s\<close>: \<open>datetime.fromisoformat(s)\<close>; the year and the month of the
    result, its position in microseconds on its own time line (UTC for an aware value,
    local wall-clock time for a naive one) and whether it carries a time zone.
  \<^item> \<open>kmeans_fit k D n\<close>: \<open>KMeans(n_clusters=k, random_state=42, n_init=10)\<close> fitted on
    the n rows of D; the labels of \<open>fit_predict\<close> and the distances of \<open>transform\<close>
    (row, centroid).
  \<^item> \<open>silhouette_score D n labels\<close>, with \<open>metric='precomputed'\<close>.
  \<^item> \<open>agglomerative_fit k D n\<close>: the labels of \<open>AgglomerativeClustering(n_clusters=k,
    metric='precomputed', linkage='average').fit_predict(D)\<close>.
  \<^item> \<open>dbscan_fit eps min_samples D n\<close>: the labels of \<open>DBSCAN(eps, min_samples,
    metric='precomputed').fit_predict(D)\<close>.
  \<^item> \<open>networkx_available\<close>: whether \<open>import networkx\<close> succeeds.
  \<^item> \<open>louvain_communities G resolution\<close>, with \<open>weight='weight'\<close> and \<open>seed=42\<close>.
  \<^item> \<open>set_order s\<close>: \<open>list(s)\<close> for a set of strings. Python fixes no order for the
    elements of a set (it follows the hashes of the strings, which change from one
    process to the next), so the order is part of the environment as well.
\<close>

type_synonym matrix = "nat \<Rightarrow> nat \<Rightarrow> real"

record datetime =
  dt_year :: int
  dt_month :: int
  dt_micros :: int
  dt_aware :: bool

text \<open>
  An undirected weighted graph as networkx keeps it: for each node, in the order of
  insertion, its neighbours with the weight of the edge, in the order of insertion.
\<close>

type_synonym graph = "(string \<times> (string \<times> real) list) list"

record libraries =
  fromisoformat :: "string \<Rightarrow> datetime option"
  kmeans_fit :: "int \<Rightarrow> matrix \<Rightarrow> nat \<Rightarrow> ((nat \<Rightarrow> int) \<times> (nat \<Rightarrow> int \<Rightarrow> real)) option"
  silhouette_score :: "matrix \<Rightarrow> nat \<Rightarrow> (nat \<Rightarrow> int) \<Rightarrow> real option"
  agglomerative_fit :: "int \<Rightarrow> matrix \<Rightarrow> nat \<Rightarrow> (nat \<Rightarrow> int) option"
  dbscan_fit :: "real \<Rightarrow> int \<Rightarrow> matrix \<Rightarrow> nat \<Rightarrow> (nat \<Rightarrow> int) option"
  networkx_available :: bool
  louvain_communities :: "graph \<Rightarrow> real \<Rightarrow> string set list option"
  set_order :: "string set \<Rightarrow> string list"



section \<open>clustering.py: consensus analysis\<close>

record ClusteringConfig =
  kmeans_n_clusters :: int
  kmeans_max_clusters :: int
  kmeans_min_cluster_size :: int
  hierarchical_n_clusters :: int
  hierarchical_linkage :: string
  dbscan_eps :: real
  dbscan_min_samples :: int
  graph_resolution :: real
  graph_min_edge_weight :: real
  consensus_threshold :: real
  min_strategies_for_consensus :: int

definition default_ClusteringConfig :: ClusteringConfig where
  "default_ClusteringConfig =
     \<lparr>kmeans_n_clusters = 0, kmeans_max_clusters = 50, kmeans_min_cluster_size = 5,
      hierarchical_n_clusters = 0, hierarchical_linkage = ''ward'',
      dbscan_eps = 3 / 10, dbscan_min_samples = 5,
      graph_resolution = 1, graph_min_edge_weight = 2 / 10,
      consensus_threshold = 7 / 10, min_strategies_for_consensus = 3\<rparr>"

text \<open>
  A dictionary that the source iterates over is an association list in the order of
  insertion, read with \<open>map_of\<close>. \<open>all_assignments\<close> maps a strategy to the assignments
  of that strategy, which map an employee id to its \<open>ClusterAssignment\<close>. A Python set
  of strings is a set of strings.
\<close>

type_synonym strategy_assignments = "(string \<times> ClusterAssignment) list"
type_synonym all_assignments = "(ClusteringStrategy \<times> strategy_assignments) list"

text \<open>
  \<open>for strategy, assignments in all_assignments.items(): if emp_id in assignments:
  emp_assignments[strategy] = assignments[emp_id]\<close>
\<close>

fun collect_assignments ::
  "all_assignments \<Rightarrow> string \<Rightarrow> (ClusteringStrategy \<times> ClusterAssignment) list" where
  "collect_assignments [] emp_id = []"
| "collect_assignments ((strat, assigns) # rest) emp_id =
     (case map_of assigns emp_id of
        None \<Rightarrow> collect_assignments rest emp_id
      | Some a \<Rightarrow> (strat, a) # collect_assignments rest emp_id)"

text \<open>The peer set of one strategy: an outlier has none, anyone else its cluster's other members.\<close>

definition cluster_members :: "strategy_assignments \<Rightarrow> string \<Rightarrow> ClusterAssignment \<Rightarrow> string set" where
  "cluster_members strategy_assignments emp_id assignment =
     set (map fst (filter (\<lambda>(other_id, other_assign).
            other_id \<noteq> emp_id \<and> cluster_id other_assign = cluster_id assignment)
          strategy_assignments))"

text \<open>
  \<open>all_assignments[strategy]\<close>: the strategy is a key of \<open>all_assignments\<close>, so the
  lookup finds it.
\<close>

definition lookup_strategy :: "all_assignments \<Rightarrow> ClusteringStrategy \<Rightarrow> strategy_assignments" where
  "lookup_strategy all_assigns strat =
     (case map_of all_assigns strat of None \<Rightarrow> [] | Some assigns \<Rightarrow> assigns)"

definition peer_sets_of ::
  "all_assignments \<Rightarrow> string \<Rightarrow> (ClusteringStrategy \<times> ClusterAssignment) list \<Rightarrow> string set list" where
  "peer_sets_of all_assigns emp_id emp_assignments =
     map (\<lambda>(strat, assignment).
            if is_outlier assignment then {}
            else cluster_members (lookup_strategy all_assigns strat) emp_id assignment)
         emp_assignments"

text \<open>\<open>for i in range(len(xs)): for j in range(i + 1, len(xs))\<close>: the pairs, in this order.\<close>

fun index_pairs :: "'a list \<Rightarrow> ('a \<times> 'a) list" where
  "index_pairs [] = []"
| "index_pairs (x # xs) = map (Pair x) xs @ index_pairs xs"

definition jaccard :: "string set \<Rightarrow> string set \<Rightarrow> real" where
  "jaccard set_a set_b =
     (let n_inter = card (set_a \<inter> set_b); n_union = card (set_a \<union> set_b)
      in if n_union > 0 then real n_inter / real n_union else 1)"

definition pairwise_similarities :: "string set list \<Rightarrow> real list" where
  "pairwise_similarities peer_sets =
     map (\<lambda>(set_a, set_b). jaccard set_a set_b)
       (filter (\<lambda>(set_a, set_b). set_a \<noteq> {} \<or> set_b \<noteq> {}) (index_pairs peer_sets))"

text \<open>\<open>np.mean\<close> of a list that is not empty.\<close>

definition np_mean :: "real list \<Rightarrow> real" where
  "np_mean xs = sum_list xs / real (length xs)"

definition consensus_score_of :: "string set list \<Rightarrow> real" where
  "consensus_score_of peer_sets =
     (if length peer_sets \<ge> 2 then
        (if pairwise_similarities peer_sets \<noteq> [] then np_mean (pairwise_similarities peer_sets)
         else 0)
      else 1)"

text \<open>
  \<open>Counter(xs)\<close> is a dictionary from each element to its count, in the order in which
  the elements first occur. \<open>most_common(1)\<close> is \<open>max(items, key=count)\<close>: the first item
  whose count no other item exceeds.
\<close>

fun counter_add :: "(int \<times> nat) list \<Rightarrow> int \<Rightarrow> (int \<times> nat) list" where
  "counter_add [] x = [(x, 1)]"
| "counter_add ((k, c) # kcs) x =
     (if k = x then (k, c + 1) # kcs else (k, c) # counter_add kcs x)"

definition Counter :: "int list \<Rightarrow> (int \<times> nat) list" where
  "Counter xs = foldl counter_add [] xs"

fun first_max :: "int \<times> nat \<Rightarrow> (int \<times> nat) list \<Rightarrow> int \<times> nat" where
  "first_max best [] = best"
| "first_max best (kc # kcs) = first_max (if snd kc > snd best then kc else best) kcs"

definition most_common_1 :: "(int \<times> nat) list \<Rightarrow> (int \<times> nat) option" where
  "most_common_1 items = (case items of [] \<Rightarrow> None | kc # kcs \<Rightarrow> Some (first_max kc kcs))"

definition review_decision ::
  "ClusteringConfig \<Rightarrow> real \<Rightarrow> nat \<Rightarrow> nat \<Rightarrow> string set \<Rightarrow> string set \<Rightarrow> bool \<times> disagreement option" where
  "review_decision config score outlier_votes n_strategies consensus_peers all_peers =
     (if score < consensus_threshold config then
        (True, Some (LowConsensusScore score (consensus_threshold config)))
      else if outlier_votes > 0 \<and> n_strategies - outlier_votes > 0 then
        (True, Some (OutlierDisagreement outlier_votes n_strategies))
      else if card consensus_peers = 0 \<and> card all_peers > 0 then (True, Some NoCommonPeers)
      else (False, None))"

definition consensus_of ::
  "libraries \<Rightarrow> ClusteringConfig \<Rightarrow> all_assignments \<Rightarrow> string \<Rightarrow> ConsensusResult" where
  "consensus_of libs config all_assigns emp_id =
     (let emp_assignments = collect_assignments all_assigns emp_id;
          n_strategies = length emp_assignments
      in if n_strategies = 0 then
           \<lparr>cr_employee_id = emp_id, assignments = [], consensus_cluster_id = None,
            consensus_score = 0, strategies_agreeing = 0, total_strategies = 0,
            peer_ids = [], peer_count = 0, needs_human_review = True,
            disagreement_reason = Some NoClusteringResults\<rparr>
         else
           let peer_sets = peer_sets_of all_assigns emp_id emp_assignments;
               score = consensus_score_of peer_sets;
               non_empty_sets = filter (\<lambda>s. s \<noteq> {}) peer_sets;
               consensus_peers =
                 (case non_empty_sets of
                    [] \<Rightarrow> {}
                  | s # others \<Rightarrow> if length non_empty_sets > 1 then \<Inter> (set non_empty_sets) else s);
               all_peers = \<Union> (set non_empty_sets);
               outlier_votes = length (filter (\<lambda>a. is_outlier a) (map snd emp_assignments));
               decision =
                 review_decision config score outlier_votes n_strategies consensus_peers all_peers;
               non_outlier_clusters =
                 map cluster_id (filter (\<lambda>a. \<not> is_outlier a) (map snd emp_assignments));
               mode = (case most_common_1 (Counter non_outlier_clusters) of
                         None \<Rightarrow> (- 1, outlier_votes)
                       | Some (c, n) \<Rightarrow> (c, n))
           in \<lparr>cr_employee_id = emp_id, assignments = emp_assignments,
               consensus_cluster_id = Some (fst mode),
               consensus_score = score,
               strategies_agreeing = snd mode,
               total_strategies = n_strategies,
               peer_ids = set_order libs all_peers,
               peer_count = card all_peers,
               needs_human_review = fst decision,
               disagreement_reason = snd decision\<rparr>)"

fun consensus_loop ::
  "libraries \<Rightarrow> ClusteringConfig \<Rightarrow> all_assignments \<Rightarrow> string list \<Rightarrow> (string \<times> ConsensusResult) list
     \<Rightarrow> (string \<times> ConsensusResult) list" where
  "consensus_loop libs config all_assigns [] results = results"
| "consensus_loop libs config all_assigns (emp_id # emp_ids) results =
     consensus_loop libs config all_assigns emp_ids
       (AList.update emp_id (consensus_of libs config all_assigns emp_id) results)"

definition analyze_consensus ::
  "libraries \<Rightarrow> ClusteringConfig \<Rightarrow> all_assignments \<Rightarrow> string list \<Rightarrow> (string \<times> ConsensusResult) list" where
  "analyze_consensus libs config all_assigns employee_ids =
     consensus_loop libs config all_assigns employee_ids []"

text \<open>
  The two readings of the specification that the consensus analysis is compared with:
  the mean of the Jaccard index over all pairs of peer sets, two empty sets counting as
  1, and the most frequent cluster id, the smallest one among several.
\<close>

definition spec_consensus_score :: "string set list \<Rightarrow> real" where
  "spec_consensus_score peer_sets =
     (if length peer_sets \<ge> 2 then
        np_mean (map (\<lambda>(set_a, set_b). jaccard set_a set_b) (index_pairs peer_sets))
      else 1)"

definition spec_smallest_mode :: "int list \<Rightarrow> int" where
  "spec_smallest_mode xs =
     Min {x \<in> set xs. \<forall>y \<in> set xs. count_list xs y \<le> count_list xs x}"

section \<open>clustering.py: the strategies\<close>









subsection \<open>Graph community\<close>








subsection \<open>\<open>run_all_strategies\<close>\<close>



section \<open>assurance.py\<close>

record SensitivityConfig =
  PUBLIC :: real
  INTERNAL :: real
  CONFIDENTIAL :: real
  CRITICAL :: real

definition default_SensitivityConfig :: SensitivityConfig where
  "default_SensitivityConfig =
     \<lparr>PUBLIC = 1, INTERNAL = 85 / 100, CONFIDENTIAL = 50 / 100, CRITICAL = 0\<rparr>"

text \<open>
  \<open>get_ceiling\<close>: \<open>getattr(self, level_upper, self.INTERNAL)\<close>. An upper-cased string
  holds no lower-case letter, and the only attributes of the object whose names hold none
  are the four fields, so every other name falls to the default \<open>self.INTERNAL\<close>.
\<close>

definition get_ceiling :: "SensitivityConfig \<Rightarrow> string \<Rightarrow> real" where
  "get_ceiling self level =
     (let level_upper = (if level \<noteq> [] then py_upper level else ''INTERNAL'')
      in if level_upper = ''PUBLIC'' then PUBLIC self
         else if level_upper = ''INTERNAL'' then INTERNAL self
         else if level_upper = ''CONFIDENTIAL'' then CONFIDENTIAL self
         else if level_upper = ''CRITICAL'' then CRITICAL self
         else INTERNAL self)"

record UsagePattern =
  total_access_count :: int
  last_accessed_days_ago :: "int option"
  access_count_30d :: int
  access_count_90d :: int
  days_since_grant :: int

text \<open>
  The explanations are formatted messages in the source; the model keeps, in order, which
  message each one is and the values formatted into it.
\<close>

datatype explanation =
    CommonAccess real nat nat
  | ModerateAccess real nat nat
  | UncommonAccess real nat nat
  | UnusualAccess real nat nat
  | NoPeerGroup
  | ActiveUsage
  | OccasionalUsage "int option"
  | StaleAccess "int option"
  | DormantNotUsedIn int
  | DormantNeverUsed
  | CriticalSensitivity
  | ConfidentialSensitivity real
  | InternalSensitivity
  | HighAssurance
  | MediumAssurance
  | LowAssurance

record AssuranceScore =
  grant_id :: string
  employee_id :: string
  resource_id :: string
  overall_score :: real
  peer_typicality :: real
  sensitivity_ceiling :: real
  usage_factor :: real
  raw_score :: real
  peers_with_access :: nat
  total_peers :: nat
  peer_percentage :: real
  usage_pattern :: string
  days_since_last_use :: "int option"
  resource_sensitivity :: string
  resource_name :: string
  classification :: string
  auto_certify_eligible :: bool
  explanations :: "explanation list"

record AssuranceConfig =
  high_assurance_threshold :: real
  medium_assurance_threshold :: real
  sensitivity :: SensitivityConfig
  active_days_threshold :: int
  occasional_days_threshold :: int
  stale_days_threshold :: int
  weight_typicality :: real
  weight_usage :: real

definition default_AssuranceConfig :: AssuranceConfig where
  "default_AssuranceConfig =
     \<lparr>high_assurance_threshold = 80, medium_assurance_threshold = 50,
      sensitivity = default_SensitivityConfig,
      active_days_threshold = 30, occasional_days_threshold = 90, stale_days_threshold = 365,
      weight_typicality = 6 / 10, weight_usage = 4 / 10\<rparr>"

text \<open>\<open>access_by_employee.get(peer_id, set())\<close>.\<close>

definition get_access :: "(string \<rightharpoonup> string set) \<Rightarrow> string \<Rightarrow> string set" where
  "get_access access_by_employee peer_id =
     (case access_by_employee peer_id of None \<Rightarrow> {} | Some s \<Rightarrow> s)"

definition calculate_typicality ::
  "string \<Rightarrow> string \<Rightarrow> string list \<Rightarrow> (string \<rightharpoonup> string set) \<Rightarrow> real \<times> nat \<times> nat" where
  "calculate_typicality eid rid peers access_by_employee =
     (if peers = [] then (5 / 10, 0, 0)
      else
        let n_total = length peers;
            n_with = length (filter (\<lambda>peer_id. rid \<in> get_access access_by_employee peer_id) peers);
            typicality = (if n_total > 0 then real n_with / real n_total else 5 / 10)
        in (typicality, n_with, n_total))"

definition calculate_usage_factor :: "AssuranceConfig \<Rightarrow> UsagePattern \<Rightarrow> real \<times> string" where
  "calculate_usage_factor config usage =
     (if total_access_count usage = 0 then (1 / 10, ''dormant'')
      else case last_accessed_days_ago usage of
        None \<Rightarrow> (1 / 10, ''dormant'')
      | Some days \<Rightarrow>
          if days \<le> active_days_threshold config then
            (if access_count_30d usage \<ge> 10 then (1, ''active'')
             else if access_count_30d usage \<ge> 3 then (9 / 10, ''active'')
             else (8 / 10, ''active''))
          else if days \<le> occasional_days_threshold config then (6 / 10, ''occasional'')
          else if days \<le> stale_days_threshold config then (3 / 10, ''stale'')
          else (1 / 10, ''dormant''))"

definition peer_explanation :: "real \<Rightarrow> nat \<Rightarrow> nat \<Rightarrow> explanation" where
  "peer_explanation pct n_with n_total =
     (if n_total > 0 then
        (if pct \<ge> 80 then CommonAccess pct n_with n_total
         else if pct \<ge> 50 then ModerateAccess pct n_with n_total
         else if pct \<ge> 20 then UncommonAccess pct n_with n_total
         else UnusualAccess pct n_with n_total)
      else NoPeerGroup)"

definition usage_explanation :: "string \<Rightarrow> int option \<Rightarrow> explanation list" where
  "usage_explanation pattern days =
     (if pattern = ''active'' then [ActiveUsage]
      else if pattern = ''occasional'' then [OccasionalUsage days]
      else if pattern = ''stale'' then [StaleAccess days]
      else if pattern = ''dormant'' then
        (case days of
           None \<Rightarrow> [DormantNeverUsed]
         | Some d \<Rightarrow> if d \<noteq> 0 then [DormantNotUsedIn d] else [DormantNeverUsed])
      else [])"

definition sensitivity_explanation :: "real \<Rightarrow> explanation list" where
  "sensitivity_explanation ceiling_v =
     (if ceiling_v = 0 then [CriticalSensitivity]
      else if ceiling_v < 6 / 10 then [ConfidentialSensitivity (ceiling_v * 100)]
      else if ceiling_v < 9 / 10 then [InternalSensitivity]
      else [])"

definition final_explanation :: "real \<Rightarrow> explanation" where
  "final_explanation final_score =
     (if final_score \<ge> 80 then HighAssurance
      else if final_score \<ge> 50 then MediumAssurance
      else LowAssurance)"

definition generate_explanations ::
  "real \<Rightarrow> nat \<Rightarrow> nat \<Rightarrow> string \<Rightarrow> real \<Rightarrow> real \<Rightarrow> int option \<Rightarrow> explanation list" where
  "generate_explanations pct n_with n_total pattern ceiling_v final_score days =
     [peer_explanation pct n_with n_total] @ usage_explanation pattern days
       @ sensitivity_explanation ceiling_v @ [final_explanation final_score]"

definition classify :: "AssuranceConfig \<Rightarrow> real \<Rightarrow> string \<times> bool" where
  "classify config final_score =
     (if final_score \<ge> high_assurance_threshold config then (''high_assurance'', True)
      else if final_score \<ge> medium_assurance_threshold config then (''medium_assurance'', False)
      else (''low_assurance'', False))"

definition calculate_score ::
  "AssuranceConfig \<Rightarrow> string \<Rightarrow> string \<Rightarrow> string \<Rightarrow> string \<Rightarrow> string \<Rightarrow> string list
     \<Rightarrow> (string \<rightharpoonup> string set) \<Rightarrow> UsagePattern \<Rightarrow> AssuranceScore" where
  "calculate_score config gid eid rid sens rname peers access_by_employee usage =
     (case calculate_typicality eid rid peers access_by_employee of
        (typicality, n_with, n_total) \<Rightarrow>
      case calculate_usage_factor config usage of
        (usage_f, pattern) \<Rightarrow>
      let ceiling_v = get_ceiling (sensitivity config) sens;
          raw = weight_typicality config * typicality + weight_usage config * usage_f;
          final_score = raw * ceiling_v * 100;
          pct = (if n_total > 0 then real n_with / real n_total * 100 else 0);
          auto_eligible = (if ceiling_v = 0 then False else snd (classify config final_score))
      in \<lparr>grant_id = gid, employee_id = eid, resource_id = rid,
          overall_score = py_round final_score 1,
          peer_typicality = py_round typicality 3,
          sensitivity_ceiling = ceiling_v,
          usage_factor = py_round usage_f 3,
          raw_score = py_round raw 3,
          peers_with_access = n_with, total_peers = n_total,
          peer_percentage = py_round pct 1,
          usage_pattern = pattern,
          days_since_last_use = last_accessed_days_ago usage,
          resource_sensitivity = sens, resource_name = rname,
          classification = fst (classify config final_score),
          auto_certify_eligible = auto_eligible,
          explanations =
            generate_explanations pct n_with n_total pattern ceiling_v final_score
              (last_accessed_days_ago usage)\<rparr>)"










section \<open>peer_proximity.py\<close>

record ProximityWeights =
  structural :: real
  functional :: real
  behavioral :: real
  temporal :: real

definition default_ProximityWeights :: ProximityWeights where
  "default_ProximityWeights =
     \<lparr>structural = 25 / 100, functional = 35 / 100, behavioral = 30 / 100, temporal = 10 / 100\<rparr>"

definition weights_total :: "ProximityWeights \<Rightarrow> real" where
  "weights_total w = structural w + functional w + behavioral w + temporal w"

definition validate :: "ProximityWeights \<Rightarrow> bool" where
  "validate w = (\<bar>weights_total w - 1\<bar> < 1 / 1000)"

definition normalize_weights :: "ProximityWeights \<Rightarrow> ProximityWeights" where
  "normalize_weights w =
     (let total = weights_total w
      in if total = 0 then default_ProximityWeights
         else \<lparr>structural = structural w / total, functional = functional w / total,
               behavioral = behavioral w / total, temporal = temporal w / total\<rparr>)"

text \<open>
  The calculator keeps its weights; its two caches are written and never read, and are
  left out. \<open>weights or ProximityWeights()\<close>: a weights object is always truthy.
\<close>

record PeerProximityCalculator =
  weights :: ProximityWeights

definition PeerProximityCalculator_init :: "ProximityWeights option \<Rightarrow> PeerProximityCalculator" where
  "PeerProximityCalculator_init given =
     (let w = (case given of None \<Rightarrow> default_ProximityWeights | Some g \<Rightarrow> g)
      in \<lparr>weights = (if \<not> validate w then normalize_weights w else w)\<rparr>)"



subsection \<open>\<open>extract_features\<close>\<close>



















subsection \<open>The four proximities\<close>











subsection \<open>\<open>calculate_pairwise_proximity_matrix\<close>\<close>













section \<open>engine.py\<close>







section \<open>Invariants used in the proofs\<close>



section \<open>Example inputs\<close>

text \<open>
  Cluster assignments as the strategies build them: an employee is an outlier when its
  cluster id is -1.
\<close>

definition assign :: "string \<Rightarrow> ClusteringStrategy \<Rightarrow> int \<Rightarrow> real \<Rightarrow> string \<times> ClusterAssignment" where
  "assign emp_id strat cid conf =
     (emp_id, \<lparr>ca_employee_id = emp_id, strategy = strat, cluster_id = cid, confidence = conf,
               is_outlier = (cid = - 1)\<rparr>)"

definition example_tie :: all_assignments where
  "example_tie =
     [(KMEANS, [assign ''e1'' KMEANS 1 1, assign ''e2'' KMEANS 0 1]),
      (HIERARCHICAL, [assign ''e1'' HIERARCHICAL 0 1, assign ''e2'' HIERARCHICAL 1 1])]"

definition example_majority :: all_assignments where
  "example_majority =
     [(KMEANS, [assign ''e1'' KMEANS 1 1, assign ''e2'' KMEANS 0 1]),
      (HIERARCHICAL, [assign ''e1'' HIERARCHICAL 0 1, assign ''e2'' HIERARCHICAL 1 1]),
      (DBSCAN, [assign ''e1'' DBSCAN 0 (1 / 2), assign ''e2'' DBSCAN 0 (1 / 2)])]"

definition example_alone :: all_assignments where
  "example_alone =
     [(HIERARCHICAL, [assign ''e1'' HIERARCHICAL 0 1, assign ''e2'' HIERARCHICAL 1 1]),
      (DBSCAN, [assign ''e1'' DBSCAN (- 1) 0, assign ''e2'' DBSCAN (- 1) 0])]"

definition example_overlap :: all_assignments where
  "example_overlap =
     [(HIERARCHICAL, [assign ''e1'' HIERARCHICAL 0 1, assign ''e2'' HIERARCHICAL 0 1,
                      assign ''e3'' HIERARCHICAL 1 1]),
      (DBSCAN, [assign ''e1'' DBSCAN 0 1, assign ''e2'' DBSCAN 0 1, assign ''e3'' DBSCAN 0 1])]"

text \<open>
  Libraries that all fail (sets are listed in ascending order), and two in which the
  community detection returns the communities named: two employees together and a third
  (and a fourth) alone. In the matrix the first two employees are at proximity 0.5 and
  all others at proximity 0.
\<close>

definition no_libraries :: libraries where
  "no_libraries =
     \<lparr>fromisoformat = (\<lambda>s. None), kmeans_fit = (\<lambda>k D n. None),
      silhouette_score = (\<lambda>D n labels. None), agglomerative_fit = (\<lambda>k D n. None),
      dbscan_fit = (\<lambda>eps min_samples D n. None), networkx_available = False,
      louvain_communities = (\<lambda>G resolution. None), set_order = sorted_list_of_set\<rparr>"







definition functional_only :: "real \<Rightarrow> ProximityWeights" where
  "functional_only x = \<lparr>structural = 0, functional = x, behavioral = 0, temporal = 0\<rparr>"










section \<open>Rounding\<close>

lemma round_half_even_lower: "\<lfloor>x\<rfloor> \<le> round_half_even x"
  by (simp add: round_half_even_def Let_def)

lemma round_half_even_upper: "round_half_even x \<le> \<lceil>x\<rceil>"
proof (cases "x = of_int \<lfloor>x\<rfloor>")
  case True
  then have "x - of_int \<lfloor>x\<rfloor> = 0" by simp
  then have "round_half_even x = \<lfloor>x\<rfloor>" by (simp add: round_half_even_def Let_def)
  then show ?thesis by (simp add: floor_le_ceiling)
next
  case False
  then have "\<lceil>x\<rceil> = \<lfloor>x\<rfloor> + 1" by (simp add: ceiling_altdef)
  then show ?thesis by (simp add: round_half_even_def Let_def)
qed

lemma round_half_even_le: "x \<le> of_int k \<Longrightarrow> round_half_even x \<le> k"
  using round_half_even_upper [of x] by (simp add: ceiling_le order_trans)

lemma round_half_even_nonneg: "0 \<le> x \<Longrightarrow> 0 \<le> round_half_even x"
  using round_half_even_lower [of x] by (simp add: order_trans [of 0 "\<lfloor>x\<rfloor>"])

lemma py_round_zero: "py_round 0 n = 0"
  by (simp add: py_round_def round_half_even_def)

lemma py_round_nonneg: "0 \<le> x \<Longrightarrow> 0 \<le> py_round x n"
  by (simp add: py_round_def round_half_even_nonneg)

lemma py_round_1_le: "x \<le> of_int k / 10 \<Longrightarrow> py_round x 1 \<le> of_int k / 10"
proof -
  assume "x \<le> of_int k / 10"
  then have "x * 10 \<le> of_int k" by simp
  then have "round_half_even (x * 10) \<le> k" by (rule round_half_even_le)
  then have "(of_int (round_half_even (x * 10)) :: real) \<le> of_int k" by simp
  then show ?thesis by (simp add: py_round_def divide_right_mono)
qed

section \<open>Consensus analysis\<close>

subsection \<open>\<open>Counter\<close> and \<open>most_common(1)\<close>\<close>

lemma map_of_counter_add:
  "map_of (counter_add kcs x) =
     (map_of kcs)(x \<mapsto> (case map_of kcs x of None \<Rightarrow> 1 | Some c \<Rightarrow> c + 1))"
  by (induction kcs x rule: counter_add.induct) (auto simp: fun_eq_iff)

lemma keys_counter_add:
  "map fst (counter_add kcs x) =
     (if x \<in> set (map fst kcs) then map fst kcs else map fst kcs @ [x])"
  by (induction kcs x rule: counter_add.induct) auto

lemma Counter_snoc: "Counter (xs @ [x]) = counter_add (Counter xs) x"
  by (simp add: Counter_def)

lemma map_of_Counter:
  "map_of (Counter xs) y = (if y \<in> set xs then Some (count_list xs y) else None)"
proof (induction xs rule: rev_induct)
  case Nil
  then show ?case by (simp add: Counter_def)
next
  case (snoc x xs)
  then show ?case by (auto simp: Counter_snoc map_of_counter_add)
qed

lemma keys_foldl_counter_add:
  "\<exists>suffix. map fst (foldl counter_add kcs ys) = map fst kcs @ suffix"
proof (induction ys arbitrary: kcs)
  case Nil
  then show ?case by simp
next
  case (Cons y ys)
  from Cons [of "counter_add kcs y"] obtain s
    where "map fst (foldl counter_add (counter_add kcs y) ys) = map fst (counter_add kcs y) @ s"
    by blast
  then show ?case by (auto simp: keys_counter_add)
qed

lemma set_keys_Counter: "set (map fst (Counter xs)) = set xs"
proof -
  have "fst ` set (Counter xs) = dom (map_of (Counter xs))"
    by (simp add: dom_map_of_conv_image_fst)
  also have "\<dots> = set xs" by (auto simp: map_of_Counter dom_def)
  finally show ?thesis by simp
qed

lemma distinct_keys_Counter: "distinct (map fst (Counter xs))"
proof (induction xs rule: rev_induct)
  case Nil
  then show ?case by (simp add: Counter_def)
next
  case (snoc x xs)
  then show ?case by (auto simp: Counter_snoc keys_counter_add)
qed

lemma keys_Counter_split:
  assumes "a \<notin> set pre"
  shows "\<exists>suffix. map fst (Counter (pre @ a # post)) = map fst (Counter pre) @ a # suffix"
proof -
  have "Counter (pre @ a # post) = foldl counter_add (counter_add (Counter pre) a) post"
    by (simp add: Counter_def)
  moreover obtain s where "map fst (foldl counter_add (counter_add (Counter pre) a) post)
      = map fst (counter_add (Counter pre) a) @ s"
    using keys_foldl_counter_add by blast
  moreover have "map fst (counter_add (Counter pre) a) = map fst (Counter pre) @ [a]"
    using assms by (simp add: keys_counter_add set_keys_Counter del: set_map)
  ultimately show ?thesis by simp
qed

lemma first_max_spec:
  "\<exists>pre post. best # kcs = pre @ first_max best kcs # post
     \<and> (\<forall>kc\<in>set pre. snd kc < snd (first_max best kcs))
     \<and> (\<forall>kc\<in>set post. snd kc \<le> snd (first_max best kcs))"
proof (induction kcs arbitrary: best)
  case Nil
  have "[best] = [] @ first_max best [] # []" by simp
  then show ?case by fastforce
next
  case (Cons kc kcs)
  show ?case
  proof (cases "snd kc > snd best")
    case True
    define r where "r = first_max kc kcs"
    have fm: "first_max best (kc # kcs) = r" using True by (simp add: r_def)
    from Cons [of kc] obtain pre post where p: "kc # kcs = pre @ r # post"
      "\<forall>k\<in>set pre. snd k < snd r" "\<forall>k\<in>set post. snd k \<le> snd r"
      unfolding r_def by blast
    have "kc \<in> set (pre @ r # post)" by (simp only: p(1) [symmetric]) simp
    then have "snd kc \<le> snd r" using p(2) p(3) by auto
    with True have b: "snd best < snd r" by simp
    have "best # kc # kcs = (best # pre) @ r # post" by (simp only: p(1)) simp
    moreover have "\<forall>k\<in>set (best # pre). snd k < snd r" using b p(2) by simp
    ultimately show ?thesis unfolding fm using p(3) by blast
  next
    case False
    define r where "r = first_max best kcs"
    have fm: "first_max best (kc # kcs) = r" using False by (simp add: r_def)
    from Cons [of best] obtain pre post where p: "best # kcs = pre @ r # post"
      "\<forall>k\<in>set pre. snd k < snd r" "\<forall>k\<in>set post. snd k \<le> snd r"
      unfolding r_def by blast
    show ?thesis
    proof (cases pre)
      case Nil
      with p(1) have r: "r = best" and kcs: "kcs = post" by simp_all
      have "best # kc # kcs = [] @ r # (kc # post)" by (simp add: r kcs)
      moreover have "\<forall>k\<in>set (kc # post). snd k \<le> snd r" using False p(3) by (simp add: r)
      ultimately show ?thesis unfolding fm by fastforce
    next
      case (Cons a pre')
      with p(1) have a: "a = best" and kcs: "kcs = pre' @ r # post" by simp_all
      from p(2) Cons a have "snd best < snd r" by simp
      with False have "snd kc < snd r" by simp
      with p(2) Cons a have "\<forall>k\<in>set (best # kc # pre'). snd k < snd r" by simp
      moreover have "best # kc # kcs = (best # kc # pre') @ r # post"
        by (subst kcs) simp
      ultimately show ?thesis unfolding fm using p(3) by blast
    qed
  qed
qed

lemma most_common_1_spec:
  assumes "xs \<noteq> []"
  shows "\<exists>m pre post. most_common_1 (Counter xs) = Some (m, count_list xs m)
     \<and> xs = pre @ m # post \<and> m \<notin> set pre
     \<and> (\<forall>y\<in>set xs. count_list xs y \<le> count_list xs m)
     \<and> (\<forall>y\<in>set pre. count_list xs y < count_list xs m)"
proof -
  from assms have "set (map fst (Counter xs)) \<noteq> {}" by (simp add: set_keys_Counter del: set_map)
  then obtain kc kcs where C: "Counter xs = kc # kcs" by (cases "Counter xs") auto
  define r where "r = first_max kc kcs"
  from first_max_spec [of kc kcs] obtain kpre kpost where
    split: "Counter xs = kpre @ r # kpost"
    and lt: "\<forall>k\<in>set kpre. snd k < snd r"
    and le: "\<forall>k\<in>set kpost. snd k \<le> snd r"
    unfolding r_def C by blast
  have mc: "most_common_1 (Counter xs) = Some r" by (simp add: most_common_1_def C r_def)
  have cnt: "snd k = count_list xs (fst k) \<and> fst k \<in> set xs" if "k \<in> set (Counter xs)" for k
  proof -
    from that distinct_keys_Counter [of xs] have "map_of (Counter xs) (fst k) = Some (snd k)"
      by simp
    then show ?thesis by (simp add: map_of_Counter split: if_splits)
  qed
  have rin: "r \<in> set (Counter xs)" by (simp add: split)
  define m where "m = fst r"
  have r: "r = (m, count_list xs m)" and m: "m \<in> set xs"
    using cnt [OF rin] by (simp_all add: m_def prod_eq_iff)
  from m obtain pre post where xs: "xs = pre @ m # post" and pre: "m \<notin> set pre"
    by (auto dest: split_list_first)
  from keys_Counter_split [OF pre, of post] obtain suffix
    where keys: "map fst (Counter xs) = map fst (Counter pre) @ m # suffix"
    by (auto simp: xs)
  have keys': "map fst (Counter xs) = map fst kpre @ m # map fst kpost"
    by (simp add: split m_def)
  have d: "distinct (map fst (Counter pre) @ m # suffix)"
    using distinct_keys_Counter [of xs] by (simp only: keys)
  have "map fst (Counter pre) @ m # suffix = map fst kpre @ m # map fst kpost"
    using keys keys' by simp
  with d have same: "map fst (Counter pre) = map fst kpre"
    by (metis append_Cons_eq_iff distinct_append distinct.simps(2) in_set_conv_decomp not_distinct_conv_prefix)
  have max: "\<forall>y\<in>set xs. count_list xs y \<le> count_list xs m"
  proof
    fix y assume "y \<in> set xs"
    then have "map_of (Counter xs) y = Some (count_list xs y)" by (simp add: map_of_Counter)
    then have yin: "(y, count_list xs y) \<in> set (Counter xs)" by (rule map_of_SomeD)
    then have "(y, count_list xs y) \<in> set kpre \<or> (y, count_list xs y) = r
        \<or> (y, count_list xs y) \<in> set kpost" by (auto simp: split)
    then show "count_list xs y \<le> count_list xs m"
      using lt le r by (elim disjE) (force simp: r)+
  qed
  have first: "\<forall>y\<in>set pre. count_list xs y < count_list xs m"
  proof
    fix y assume "y \<in> set pre"
    then have "y \<in> set (map fst (Counter pre))" by (simp add: set_keys_Counter del: set_map)
    then have "y \<in> set (map fst kpre)" by (simp only: same)
    then obtain c where yc: "(y, c) \<in> set kpre" by auto
    then have "(y, c) \<in> set (Counter xs)" by (simp add: split)
    from cnt [OF this] have "c = count_list xs y" by simp
    with lt yc r show "count_list xs y < count_list xs m" by force
  qed
  show ?thesis using mc r xs pre max first by blast
qed

subsection \<open>\<open>analyze_consensus\<close>\<close>

lemma consensus_loop_lookup:
  "map_of (consensus_loop libs config all_assigns ids results) e =
     (if e \<in> set ids then Some (consensus_of libs config all_assigns e) else map_of results e)"
  by (induction ids arbitrary: results) (auto simp: update_conv')

lemma analyze_consensus_lookup:
  "e \<in> set ids \<Longrightarrow>
   map_of (analyze_consensus libs config all_assigns ids) e = Some (consensus_of libs config all_assigns e)"
  by (simp add: analyze_consensus_def consensus_loop_lookup)

lemma consensus_cluster_id_consensus_of:
  "collect_assignments all_assigns e \<noteq> [] \<Longrightarrow>
   consensus_cluster_id (consensus_of libs config all_assigns e) =
     Some (case most_common_1 (Counter (map cluster_id (filter (\<lambda>a. \<not> is_outlier a)
                        (map snd (collect_assignments all_assigns e))))) of
             None \<Rightarrow> - 1
           | Some (c, n) \<Rightarrow> c)"
  by (simp add: consensus_of_def Let_def split: option.splits prod.splits)

lemma consensus_score_consensus_of:
  "collect_assignments all_assigns e \<noteq> [] \<Longrightarrow>
   consensus_score (consensus_of libs config all_assigns e) =
     consensus_score_of (peer_sets_of all_assigns e (collect_assignments all_assigns e))"
  by (simp add: consensus_of_def Let_def)

lemma finite_peer_sets:
  "s \<in> set (peer_sets_of all_assigns e emp_assignments) \<Longrightarrow> finite s"
  by (auto simp: peer_sets_of_def cluster_members_def split: if_splits)

lemma set_index_pairs: "(a, b) \<in> set (index_pairs xs) \<Longrightarrow> a \<in> set xs \<and> b \<in> set xs"
  by (induction xs) auto

lemma jaccard_nonempty:
  "finite a \<Longrightarrow> finite b \<Longrightarrow> a \<noteq> {} \<or> b \<noteq> {} \<Longrightarrow>
   jaccard a b = real (card (a \<inter> b)) / real (card (a \<union> b))"
  by (auto simp: jaccard_def Let_def card_gt_0_iff)

text \<open>
  Claim C6, as the code has it. For an employee with at least one successful strategy, let
  the votes be the cluster ids of its non-outlier assignments, in the order of the
  strategies. With no vote the consensus cluster id is -1. Otherwise it is a most
  frequent vote, and among several the one that occurs first: every vote before its
  first occurrence is strictly less frequent.
\<close>

theorem C6_first_mode:
  assumes "emp_id \<in> set employee_ids"
      and "collect_assignments all_assigns emp_id \<noteq> []"
  shows "\<exists>r. map_of (analyze_consensus libs config all_assigns employee_ids) emp_id = Some r
     \<and> (let votes = map cluster_id (filter (\<lambda>a. \<not> is_outlier a)
                        (map snd (collect_assignments all_assigns emp_id)))
        in if votes = [] then consensus_cluster_id r = Some (- 1)
           else \<exists>m pre post. consensus_cluster_id r = Some m
                  \<and> votes = pre @ m # post \<and> m \<notin> set pre
                  \<and> (\<forall>y\<in>set votes. count_list votes y \<le> count_list votes m)
                  \<and> (\<forall>y\<in>set pre. count_list votes y < count_list votes m))"
proof -
  define votes where "votes = map cluster_id (filter (\<lambda>a. \<not> is_outlier a)
      (map snd (collect_assignments all_assigns emp_id)))"
  define r where "r = consensus_of libs config all_assigns emp_id"
  have look: "map_of (analyze_consensus libs config all_assigns employee_ids) emp_id = Some r"
    using assms(1) by (simp add: analyze_consensus_lookup r_def)
  have cid: "consensus_cluster_id r =
      Some (case most_common_1 (Counter votes) of None \<Rightarrow> - 1 | Some (c, n) \<Rightarrow> c)"
    unfolding r_def votes_def by (rule consensus_cluster_id_consensus_of [OF assms(2)])
  have "if votes = [] then consensus_cluster_id r = Some (- 1)
        else \<exists>m pre post. consensus_cluster_id r = Some m
               \<and> votes = pre @ m # post \<and> m \<notin> set pre
               \<and> (\<forall>y\<in>set votes. count_list votes y \<le> count_list votes m)
               \<and> (\<forall>y\<in>set pre. count_list votes y < count_list votes m)"
  proof (cases "votes = []")
    case True
    then show ?thesis by (simp add: cid Counter_def most_common_1_def)
  next
    case False
    from most_common_1_spec [OF False] obtain m pre post where
      "most_common_1 (Counter votes) = Some (m, count_list votes m)"
      "votes = pre @ m # post" "m \<notin> set pre"
      "\<forall>y\<in>set votes. count_list votes y \<le> count_list votes m"
      "\<forall>y\<in>set pre. count_list votes y < count_list votes m" by blast
    moreover from this(1) have "consensus_cluster_id r = Some m" by (simp add: cid)
    ultimately show ?thesis using False by (simp only: if_False) blast
  qed
  then show ?thesis using look unfolding votes_def [symmetric] Let_def by blast
qed

text \<open>
  Claim C5, as the code has it. For an employee with at least one successful strategy
  there is one peer set per strategy. With exactly one strategy the consensus score is 1.
  With more it is the mean of the Jaccard index over the pairs of strategies whose peer
  sets are not both empty, and 0 when there is no such pair.
\<close>

theorem C5_consensus_score:
  assumes "emp_id \<in> set employee_ids"
      and "collect_assignments all_assigns emp_id \<noteq> []"
  shows "\<exists>r. map_of (analyze_consensus libs config all_assigns employee_ids) emp_id = Some r
     \<and> (let peer_sets = peer_sets_of all_assigns emp_id (collect_assignments all_assigns emp_id);
            counted = filter (\<lambda>(set_a, set_b). set_a \<noteq> {} \<or> set_b \<noteq> {}) (index_pairs peer_sets)
        in length peer_sets = length (collect_assignments all_assigns emp_id)
           \<and> consensus_score r =
               (if length peer_sets = 1 then 1
                else if counted = [] then 0
                else (\<Sum>(set_a, set_b)\<leftarrow>counted.
                        real (card (set_a \<inter> set_b)) / real (card (set_a \<union> set_b)))
                     / real (length counted)))"
proof -
  define peer_sets
    where "peer_sets = peer_sets_of all_assigns emp_id (collect_assignments all_assigns emp_id)"
  define counted
    where "counted = filter (\<lambda>(set_a, set_b). set_a \<noteq> {} \<or> set_b \<noteq> {}) (index_pairs peer_sets)"
  define r where "r = consensus_of libs config all_assigns emp_id"
  have look: "map_of (analyze_consensus libs config all_assigns employee_ids) emp_id = Some r"
    using assms(1) by (simp add: analyze_consensus_lookup r_def)
  have len: "length peer_sets = length (collect_assignments all_assigns emp_id)"
    by (simp add: peer_sets_def peer_sets_of_def)
  with assms(2) have pos: "length peer_sets \<ge> 1" by (cases "collect_assignments all_assigns emp_id") auto
  have sc: "consensus_score r = consensus_score_of peer_sets"
    unfolding r_def peer_sets_def by (rule consensus_score_consensus_of [OF assms(2)])
  have "jaccard a b = real (card (a \<inter> b)) / real (card (a \<union> b))" if "(a, b) \<in> set counted" for a b
  proof -
    from that have "(a, b) \<in> set (index_pairs peer_sets)" and ne: "a \<noteq> {} \<or> b \<noteq> {}"
      by (auto simp: counted_def)
    then have "a \<in> set peer_sets" "b \<in> set peer_sets" by (auto dest: set_index_pairs)
    then have "finite a" "finite b" unfolding peer_sets_def using finite_peer_sets by blast+
    then show ?thesis using ne by (rule jaccard_nonempty)
  qed
  then have "map (\<lambda>(set_a, set_b). jaccard set_a set_b) counted
      = map (\<lambda>(set_a, set_b). real (card (set_a \<inter> set_b)) / real (card (set_a \<union> set_b))) counted"
    by (intro map_cong) auto
  then have sims: "pairwise_similarities peer_sets
      = map (\<lambda>(set_a, set_b). real (card (set_a \<inter> set_b)) / real (card (set_a \<union> set_b))) counted"
    by (simp add: pairwise_similarities_def counted_def)
  have "consensus_score r =
      (if length peer_sets = 1 then 1
       else if counted = [] then 0
       else (\<Sum>(set_a, set_b)\<leftarrow>counted.
               real (card (set_a \<inter> set_b)) / real (card (set_a \<union> set_b)))
            / real (length counted))"
    using pos by (auto simp: sc consensus_score_of_def sims np_mean_def)
  then show ?thesis
    using look len unfolding peer_sets_def [symmetric] counted_def [symmetric] Let_def by blast
qed

lemma collect_tie: "collect_assignments example_tie ''e1'' =
   [(KMEANS, snd (assign ''e1'' KMEANS 1 1)), (HIERARCHICAL, snd (assign ''e1'' HIERARCHICAL 0 1))]"
  by (simp add: example_tie_def assign_def)

text \<open>
  Two strategies vote 1 and 0 for the employee: both ids are most frequent, the smallest
  is 0, and the consensus cluster id is 1, the vote of the first strategy.
\<close>

theorem C6_smallest_id_counterexample:
  "map_option consensus_cluster_id
     (map_of (analyze_consensus no_libraries default_ClusteringConfig example_tie [''e1'', ''e2'']) ''e1'')
     = Some (Some 1)
   \<and> spec_smallest_mode (map cluster_id (filter (\<lambda>a. \<not> is_outlier a)
        (map snd (collect_assignments example_tie ''e1'')))) = 0"
proof -
  have "{x \<in> set [1, 0 :: int]. \<forall>y\<in>set [1, 0 :: int].
            count_list [1, 0 :: int] y \<le> count_list [1, 0 :: int] x} = {1, 0}"
    by auto
  then have "spec_smallest_mode [1, 0] = 0" by (simp add: spec_smallest_mode_def)
  moreover have "consensus_cluster_id (consensus_of no_libraries default_ClusteringConfig example_tie ''e1'') = Some 1"
    by (simp add: consensus_cluster_id_consensus_of collect_tie assign_def Counter_def
        most_common_1_def)
  ultimately show ?thesis
    by (simp add: analyze_consensus_lookup collect_tie assign_def)
qed

lemma collect_majority: "collect_assignments example_majority ''e1'' =
   [(KMEANS, snd (assign ''e1'' KMEANS 1 1)), (HIERARCHICAL, snd (assign ''e1'' HIERARCHICAL 0 1)),
    (DBSCAN, snd (assign ''e1'' DBSCAN 0 (1 / 2)))]"
  by (simp add: example_majority_def assign_def)

text \<open>Votes 1, 0, 0 of three strategies: the consensus cluster id is 0.\<close>

theorem C6_first_mode_witness:
  "map_option consensus_cluster_id
     (map_of (analyze_consensus no_libraries default_ClusteringConfig example_majority [''e1'', ''e2'']) ''e1'')
     = Some (Some 0)"
proof -
  have votes: "map cluster_id (filter (\<lambda>a. \<not> is_outlier a)
      (map snd (collect_assignments example_majority ''e1''))) = [1, 0, 0]"
    by (simp add: collect_majority assign_def)
  have h1: "''e1'' \<in> set [''e1'', ''e2'']" by simp
  have h2: "collect_assignments example_majority ''e1'' \<noteq> []" by (simp add: collect_majority)
  have "\<exists>r. map_of (analyze_consensus no_libraries default_ClusteringConfig example_majority [''e1'', ''e2''])
               ''e1'' = Some r
     \<and> (\<exists>m pre post. consensus_cluster_id r = Some m
            \<and> [1, 0, 0] = pre @ m # post \<and> m \<notin> set pre
            \<and> (\<forall>y\<in>set [1, 0, 0 :: int]. count_list [1, 0, 0] y \<le> count_list [1, 0, 0] m)
            \<and> (\<forall>y\<in>set pre. count_list [1, 0, 0] y < count_list [1, 0, 0] m))"
    using C6_first_mode [OF h1 h2, of no_libraries default_ClusteringConfig]
    unfolding votes Let_def by (simp only: list.distinct if_False)
  then obtain r m pre post where
    r: "map_of (analyze_consensus no_libraries default_ClusteringConfig example_majority [''e1'', ''e2'']) ''e1''
          = Some r"
    and m: "consensus_cluster_id r = Some m"
    and mx: "\<forall>y\<in>set [1, 0, 0 :: int]. count_list [1, 0, 0] y \<le> count_list [1, 0, 0] m"
    and sp: "[1, 0, 0] = pre @ m # post"
    by blast
  from sp have "m \<in> set [1, 0, 0]" by (metis in_set_conv_decomp)
  then have "m = 1 \<or> m = 0" by simp
  moreover from mx have "count_list [1, 0, 0 :: int] 0 \<le> count_list [1, 0, 0] m" by simp
  ultimately have "m = 0" by auto
  with r m show ?thesis by simp
qed

lemma collect_alone: "collect_assignments example_alone ''e1'' =
   [(HIERARCHICAL, snd (assign ''e1'' HIERARCHICAL 0 1)), (DBSCAN, snd (assign ''e1'' DBSCAN (- 1) 0))]"
  by (simp add: example_alone_def assign_def)

lemma peer_sets_alone:
  "peer_sets_of example_alone ''e1'' (collect_assignments example_alone ''e1'') = [{}, {}]"
  by (simp add: collect_alone peer_sets_of_def assign_def lookup_strategy_def example_alone_def
      cluster_members_def)

text \<open>
  The employee is alone in its hierarchical cluster and noise for DBSCAN: both peer sets
  are empty, the mean over all pairs with Jaccard 1 for two empty sets is 1, and the
  consensus score is 0.
\<close>

theorem C5_empty_pairs_counterexample:
  "map_option consensus_score
     (map_of (analyze_consensus no_libraries default_ClusteringConfig example_alone [''e1'', ''e2'']) ''e1'')
     = Some 0
   \<and> spec_consensus_score
       (peer_sets_of example_alone ''e1'' (collect_assignments example_alone ''e1'')) = 1"
proof -
  have ne: "collect_assignments example_alone ''e1'' \<noteq> []" by (simp add: collect_alone)
  have "consensus_score (consensus_of no_libraries default_ClusteringConfig example_alone ''e1'')
      = consensus_score_of [{}, {}]"
    using consensus_score_consensus_of [OF ne] by (simp only: peer_sets_alone)
  then have "consensus_score (consensus_of no_libraries default_ClusteringConfig example_alone ''e1'') = 0"
    by (simp add: consensus_score_of_def pairwise_similarities_def)
  moreover have "spec_consensus_score [{}, {}] = 1"
    by (simp add: spec_consensus_score_def np_mean_def jaccard_def)
  ultimately show ?thesis by (simp add: analyze_consensus_lookup peer_sets_alone)
qed

lemma collect_overlap: "collect_assignments example_overlap ''e1'' =
   [(HIERARCHICAL, snd (assign ''e1'' HIERARCHICAL 0 1)), (DBSCAN, snd (assign ''e1'' DBSCAN 0 1))]"
  by (simp add: example_overlap_def assign_def)

lemma peer_sets_overlap:
  "peer_sets_of example_overlap ''e1'' (collect_assignments example_overlap ''e1'')
     = [{''e2''}, {''e2'', ''e3''}]"
  by (simp add: collect_overlap peer_sets_of_def assign_def lookup_strategy_def example_overlap_def
      cluster_members_def)

text \<open>Peer sets {e2} and {e2, e3} of two strategies: the consensus score is 1/2.\<close>

theorem C5_consensus_score_witness:
  "map_option consensus_score
     (map_of (analyze_consensus no_libraries default_ClusteringConfig example_overlap [''e1'', ''e2'', ''e3''])
        ''e1'') = Some (1 / 2)"
proof -
  have "''e1'' \<in> set [''e1'', ''e2'', ''e3'']" by simp
  moreover have "collect_assignments example_overlap ''e1'' \<noteq> []" by (simp add: collect_overlap)
  ultimately obtain r where
    r: "map_of (analyze_consensus no_libraries default_ClusteringConfig example_overlap [''e1'', ''e2'', ''e3''])
          ''e1'' = Some r"
    and s: "consensus_score r =
       (let peer_sets = [{''e2''}, {''e2'', ''e3''}];
            counted = filter (\<lambda>(set_a, set_b). set_a \<noteq> {} \<or> set_b \<noteq> {}) (index_pairs peer_sets)
        in if length peer_sets = 1 then 1
           else if counted = [] then 0
           else (\<Sum>(set_a, set_b)\<leftarrow>counted.
                   real (card (set_a \<inter> set_b)) / real (card (set_a \<union> set_b)))
                / real (length counted))"
    using C5_consensus_score [of "''e1''" "[''e1'', ''e2'', ''e3'']" example_overlap
        no_libraries default_ClusteringConfig]
    unfolding peer_sets_overlap Let_def by auto
  have "{''e2''} \<union> {''e2'', ''e3''} = {''e2'', ''e3''}" by auto
  then have "consensus_score r = 1 / 2" by (simp add: s)
  with r show ?thesis by simp
qed

section \<open>The graph-community strategy\<close>
















section \<open>The assurance scorer\<close>

lemma calculate_typicality_range:
  "calculate_typicality eid rid peers abe = (t, a, b) \<Longrightarrow> 0 \<le> t \<and> t \<le> 1"
proof -
  assume h: "calculate_typicality eid rid peers abe = (t, a, b)"
  have "length (filter P peers) \<le> length peers" for P :: "string \<Rightarrow> bool"
    by (rule length_filter_le)
  then have "real (length (filter P peers)) \<le> real (length peers)" for P :: "string \<Rightarrow> bool"
    by simp
  with h show ?thesis
    by (auto simp: calculate_typicality_def Let_def divide_le_eq_1 split: if_splits)
qed

lemma calculate_usage_factor_range:
  "calculate_usage_factor config usage = (u, p) \<Longrightarrow> 0 \<le> u \<and> u \<le> 1"
  by (auto simp: calculate_usage_factor_def split: if_splits option.splits)

lemma get_ceiling_default_cases:
  "get_ceiling default_SensitivityConfig sens \<in> {1, 85 / 100, 50 / 100, 0}"
  by (simp add: get_ceiling_def default_SensitivityConfig_def Let_def)

lemma get_ceiling_Critical: "get_ceiling sc ''Critical'' = CRITICAL sc"
  by (simp add: get_ceiling_def py_upper_def upper_char_def)

lemma get_ceiling_Internal: "get_ceiling sc ''Internal'' = INTERNAL sc"
  by (simp add: get_ceiling_def py_upper_def upper_char_def)


lemma overall_score_calculate_score:
  "overall_score (calculate_score config gid eid rid sens rname peers abe usage) =
     py_round ((weight_typicality config * fst (calculate_typicality eid rid peers abe)
                + weight_usage config * fst (calculate_usage_factor config usage))
               * get_ceiling (sensitivity config) sens * 100) 1"
  by (simp add: calculate_score_def Let_def split: prod.splits)

lemma auto_certify_eligible_calculate_score:
  "get_ceiling (sensitivity config) sens = 0 \<Longrightarrow>
   auto_certify_eligible (calculate_score config gid eid rid sens rname peers abe usage) = False"
  by (simp add: calculate_score_def Let_def split: prod.splits)



text \<open>
  Claim C9. With the day thresholds 30, 90 and 365, \<open>calculate_usage_factor\<close> returns
  (0.1, dormant) when the total access count is 0 or the days since last use are missing;
  otherwise, when the days since last use are at most 30, (1.0, active) for a 30-day count
  of at least 10, (0.9, active) for at least 3 and (0.8, active) below; (0.6, occasional)
  when they are at most 90; (0.3, stale) when at most 365; and (0.1, dormant) beyond.
\<close>

theorem C9_usage_factor:
  assumes "active_days_threshold config = 30"
      and "occasional_days_threshold config = 90"
      and "stale_days_threshold config = 365"
  shows "calculate_usage_factor config usage =
     (if total_access_count usage = 0 \<or> last_accessed_days_ago usage = None then (1 / 10, ''dormant'')
      else if the (last_accessed_days_ago usage) \<le> 30 then
        (if access_count_30d usage \<ge> 10 then (1, ''active'')
         else if access_count_30d usage \<ge> 3 then (9 / 10, ''active'')
         else (8 / 10, ''active''))
      else if the (last_accessed_days_ago usage) \<le> 90 then (6 / 10, ''occasional'')
      else if the (last_accessed_days_ago usage) \<le> 365 then (3 / 10, ''stale'')
      else (1 / 10, ''dormant''))"
  using assms by (simp add: calculate_usage_factor_def split: option.splits)

text \<open>The default configuration, an active and a stale usage pattern.\<close>

theorem C9_usage_factor_witness:
  "calculate_usage_factor default_AssuranceConfig
     \<lparr>total_access_count = 40, last_accessed_days_ago = Some 5, access_count_30d = 15,
      access_count_90d = 30, days_since_grant = 400\<rparr> = (1, ''active'')
   \<and> calculate_usage_factor default_AssuranceConfig
     \<lparr>total_access_count = 40, last_accessed_days_ago = Some 200, access_count_30d = 0,
      access_count_90d = 0, days_since_grant = 400\<rparr> = (3 / 10, ''stale'')"
  using C9_usage_factor [of default_AssuranceConfig
      "\<lparr>total_access_count = 40, last_accessed_days_ago = Some 5, access_count_30d = 15,
        access_count_90d = 30, days_since_grant = 400\<rparr>"]
    C9_usage_factor [of default_AssuranceConfig
      "\<lparr>total_access_count = 40, last_accessed_days_ago = Some 200, access_count_30d = 0,
        access_count_90d = 0, days_since_grant = 400\<rparr>"]
  by (simp add: default_AssuranceConfig_def)

text \<open>
  Claim C1. For a grant whose resource sensitivity is \<open>Critical\<close> (ceiling 0, as in the
  sensitivity table of the source), the score that \<open>calculate_score\<close> returns is not
  eligible for auto-certification and its overall score is 0, whatever the peers, the
  usage, the weights and the thresholds are.
\<close>

theorem C1_critical:
  assumes "CRITICAL (sensitivity config) = 0"
  shows "auto_certify_eligible
           (calculate_score config gid eid rid ''Critical'' rname peers abe usage) = False
       \<and> overall_score
           (calculate_score config gid eid rid ''Critical'' rname peers abe usage) = 0"
  using assms
  by (simp add: overall_score_calculate_score auto_certify_eligible_calculate_score
      get_ceiling_Critical py_round_zero)

text \<open>
  Claim C3. With the default weights (0.6, 0.4) and the default sensitivity table, the
  overall score of \<open>calculate_score\<close> lies in [0, 100] and is at most 100 times the
  ceiling of the grant's resource sensitivity.
\<close>

theorem C3_bounds:
  assumes "weight_typicality config = 6 / 10"
      and "weight_usage config = 4 / 10"
      and "sensitivity config = default_SensitivityConfig"
  shows "0 \<le> overall_score (calculate_score config gid eid rid sens rname peers abe usage)
       \<and> overall_score (calculate_score config gid eid rid sens rname peers abe usage) \<le> 100
       \<and> overall_score (calculate_score config gid eid rid sens rname peers abe usage)
           \<le> 100 * get_ceiling (sensitivity config) sens"
proof -
  obtain t a b where ty: "calculate_typicality eid rid peers abe = (t, a, b)"
    by (cases "calculate_typicality eid rid peers abe") auto
  obtain u p where us: "calculate_usage_factor config usage = (u, p)"
    by (cases "calculate_usage_factor config usage") auto
  define c where "c = get_ceiling default_SensitivityConfig sens"
  define raw where "raw = 6 / 10 * t + 4 / 10 * u"
  have t: "0 \<le> t" "t \<le> 1" using calculate_typicality_range [OF ty] by simp_all
  have u: "0 \<le> u" "u \<le> 1" using calculate_usage_factor_range [OF us] by simp_all
  have raw: "0 \<le> raw" "raw \<le> 1" using t u by (simp_all add: raw_def)
  have c: "c \<in> {1, 85 / 100, 50 / 100, 0}"
    unfolding c_def by (rule get_ceiling_default_cases)
  then have c01: "0 \<le> c" "c \<le> 1" by auto
  have ov: "overall_score (calculate_score config gid eid rid sens rname peers abe usage)
      = py_round (raw * c * 100) 1"
    unfolding overall_score_calculate_score assms ty us raw_def c_def by simp
  have lo: "0 \<le> py_round (raw * c * 100) 1"
    using raw c01 by (intro py_round_nonneg) simp
  from c obtain k :: int where k: "100 * c = of_int k / 10"
  proof -
    from c consider "c = 1" | "c = 85 / 100" | "c = 50 / 100" | "c = 0" by auto
    then show ?thesis
    proof cases
      case 1 then show ?thesis using that [of 1000] by simp
    next
      case 2 then show ?thesis using that [of 850] by simp
    next
      case 3 then show ?thesis using that [of 500] by simp
    next
      case 4 then show ?thesis using that [of 0] by simp
    qed
  qed
  have "raw * c \<le> 1 * c" using raw c01 by (intro mult_right_mono) simp_all
  then have le: "raw * c * 100 \<le> 100 * c" by (simp add: mult.commute)
  then have "raw * c * 100 \<le> of_int k / 10" using k by simp
  then have "py_round (raw * c * 100) 1 \<le> of_int k / 10" by (rule py_round_1_le)
  then have hi: "py_round (raw * c * 100) 1 \<le> 100 * c" using k by simp
  have "100 * c \<le> 100" using c01 by simp
  with hi have hi100: "py_round (raw * c * 100) 1 \<le> 100" by simp
  show ?thesis using lo hi hi100 assms(3) by (simp add: ov c_def)
qed








text \<open>A Critical resource that both peers hold and that is in active use.\<close>

theorem C1_critical_witness:
  "auto_certify_eligible
     (calculate_score default_AssuranceConfig ''g1'' ''e1'' ''r1'' ''Critical'' ''payments-db''
        [''p1'', ''p2''] [''p1'' \<mapsto> {''r1''}, ''p2'' \<mapsto> {''r1''}]
        \<lparr>total_access_count = 40, last_accessed_days_ago = Some 2, access_count_30d = 20,
         access_count_90d = 30, days_since_grant = 400\<rparr>) = False
   \<and> overall_score
     (calculate_score default_AssuranceConfig ''g1'' ''e1'' ''r1'' ''Critical'' ''payments-db''
        [''p1'', ''p2''] [''p1'' \<mapsto> {''r1''}, ''p2'' \<mapsto> {''r1''}]
        \<lparr>total_access_count = 40, last_accessed_days_ago = Some 2, access_count_30d = 20,
         access_count_90d = 30, days_since_grant = 400\<rparr>) = 0"
proof -
  have h: "CRITICAL (sensitivity default_AssuranceConfig) = 0"
    by (simp add: default_AssuranceConfig_def default_SensitivityConfig_def)
  show ?thesis by (rule C1_critical [OF h])
qed

text \<open>An Internal resource under the default configuration: the score is at most 85.\<close>

theorem C3_bounds_witness:
  "0 \<le> overall_score
     (calculate_score default_AssuranceConfig ''g2'' ''e2'' ''r2'' ''Internal'' ''wiki''
        [''p1'', ''p2''] [''p1'' \<mapsto> {''r2''}, ''p2'' \<mapsto> {''r2''}]
        \<lparr>total_access_count = 40, last_accessed_days_ago = Some 5, access_count_30d = 15,
         access_count_90d = 30, days_since_grant = 400\<rparr>)
   \<and> overall_score
     (calculate_score default_AssuranceConfig ''g2'' ''e2'' ''r2'' ''Internal'' ''wiki''
        [''p1'', ''p2''] [''p1'' \<mapsto> {''r2''}, ''p2'' \<mapsto> {''r2''}]
        \<lparr>total_access_count = 40, last_accessed_days_ago = Some 5, access_count_30d = 15,
         access_count_90d = 30, days_since_grant = 400\<rparr>) \<le> 85"
proof -
  have w: "weight_typicality default_AssuranceConfig = 6 / 10"
    and u: "weight_usage default_AssuranceConfig = 4 / 10"
    and s: "sensitivity default_AssuranceConfig = default_SensitivityConfig"
    by (simp_all add: default_AssuranceConfig_def)
  have c: "get_ceiling default_SensitivityConfig ''Internal'' = 85 / 100"
    by (simp add: get_ceiling_Internal default_SensitivityConfig_def)
  show ?thesis
    using C3_bounds [OF w u s, of "''g2''" "''e2''" "''r2''" "''Internal''" "''wiki''"
        "[''p1'', ''p2'']" "[''p1'' \<mapsto> {''r2''}, ''p2'' \<mapsto> {''r2''}]"
        "\<lparr>total_access_count = 40, last_accessed_days_ago = Some 5, access_count_30d = 15,
          access_count_90d = 30, days_since_grant = 400\<rparr>"]
    by (simp add: s c)
qed

text \<open>
  Scenario B of the specification, with ten peers instead of twenty: nine of ten peers hold
  the resource, usage is active, the resource is Internal; the score is 79.9.
\<close>

lemma scenario_B_score:
  "overall_score
     (calculate_score default_AssuranceConfig ''g2'' ''e2'' ''r2'' ''Internal'' ''wiki''
        [''p1'', ''p2'', ''p3'', ''p4'', ''p5'', ''p6'', ''p7'', ''p8'', ''p9'', ''p10'']
        [''p1'' \<mapsto> {''r2''}, ''p2'' \<mapsto> {''r2''}, ''p3'' \<mapsto> {''r2''}, ''p4'' \<mapsto> {''r2''},
         ''p5'' \<mapsto> {''r2''}, ''p6'' \<mapsto> {''r2''}, ''p7'' \<mapsto> {''r2''}, ''p8'' \<mapsto> {''r2''},
         ''p9'' \<mapsto> {''r2''}]
        \<lparr>total_access_count = 40, last_accessed_days_ago = Some 5, access_count_30d = 15,
         access_count_90d = 30, days_since_grant = 400\<rparr>) = 799 / 10"
  by (simp add: overall_score_calculate_score calculate_typicality_def calculate_usage_factor_def
      default_AssuranceConfig_def default_SensitivityConfig_def get_ceiling_Internal get_access_def
      py_round_def round_half_even_def Let_def)



section \<open>The proximity matrix\<close>


























lemma init_functional_only_one:
  "PeerProximityCalculator_init (Some (functional_only 1)) = \<lparr>weights = functional_only 1\<rparr>"
  by (simp add: PeerProximityCalculator_init_def validate_def weights_total_def functional_only_def)






section \<open>The pipeline\<close>



























end
